theory Spec2Isabelle
  imports Main "HOL-Library.AList"
begin

section \<open>Caffe2 build definitions of the CircleCI configuration model\<close>

text \<open>
  A shallow embedding of \<^verbatim>\<open>.circleci/cimodel/caffe2_build_definitions.py\<close>.
  Python strings are \<^typ>\<open>string\<close>, the class \<^verbatim>\<open>Conf\<close> is a record, Python
  dictionaries (ordered) are association lists updated with \<^const>\<open>AList.update\<close>, which
  overwrites the value of a key that is present and appends a new key at the end, and
  the nested loops of \<^verbatim>\<open>gen_build_list\<close> are nested \<^const>\<open>concat\<close>/\<^const>\<open>map\<close>.
\<close>

subsection \<open>Collaborators that live outside the source file\<close>

text \<open>
  Modelled from the spec: the class \<^verbatim>\<open>Ver\<close> of \<^verbatim>\<open>cimodel.conf_tree\<close> is not part of
  the source file. The spec describes it as "a name plus an optional version string;
  equality/printable form is name+version or name alone".
\<close>

datatype Ver = Ver (name: string) (version: "string option")

text \<open>The printable form, Python's \<^verbatim>\<open>str(v)\<close>.\<close>

fun str :: "Ver \<Rightarrow> string" where
  "str (Ver n None) = n"
| "str (Ver n (Some v)) = n @ v"

text \<open>
  Modelled from the spec: \<^verbatim>\<open>cimodel.dimensions.PHASES\<close> is not part of the source file.
  The spec calls it "the fixed phase list" and names its phases: "a pipeline stage,
  either compiling (build) or exercising (test) a configuration", enumerated in that
  order.
\<close>

definition PHASES :: "string list" where
  "PHASES = [''build'', ''test'']"

text \<open>
  Modelled from the spec: \<^verbatim>\<open>cimodel.miniutils.quote\<close> is not part of the source file.
  The spec calls it "a string-quoting helper": it wraps its argument in double quotes.
\<close>

definition quote :: "string \<Rightarrow> string" where
  "quote s = [CHR 0x22] @ s @ [CHR 0x22]"

text \<open>
  Modelled from the spec: \<^verbatim>\<open>cimodel.miniutils.override\<close> is not part of the source file
  and the spec does not describe it beyond its use; the source calls it with a word and
  a dictionary of substitutions. It is modelled as the lookup of the word in the
  dictionary, with the word itself as the default.
\<close>

definition override :: "string \<Rightarrow> (string \<times> string) list \<Rightarrow> string" where
  "override word substitutions =
     (case map_of substitutions word of Some w \<Rightarrow> w | None \<Rightarrow> word)"

subsection \<open>Python's string and dictionary primitives\<close>

text \<open>\<^verbatim>\<open>sep.join(parts)\<close>\<close>

fun join :: "string \<Rightarrow> string list \<Rightarrow> string" where
  "join sep [] = []"
| "join sep [x] = x"
| "join sep (x # y # ys) = x @ sep @ join sep (y # ys)"

text \<open>\<^verbatim>\<open>s.replace(old, new)\<close> for one-character strings \<^verbatim>\<open>old\<close> and \<^verbatim>\<open>new\<close>.\<close>

definition str_replace :: "char \<Rightarrow> char \<Rightarrow> string \<Rightarrow> string" where
  "str_replace old new s = map (\<lambda>c. if c = old then new else c) s"

text \<open>\<^verbatim>\<open>str(n)\<close> for an integer: its decimal numeral.\<close>

fun str_nat :: "nat \<Rightarrow> string" where
  "str_nat n =
     (if n < 10 then [''0123456789'' ! n]
      else str_nat (n div 10) @ [''0123456789'' ! (n mod 10)])"

declare str_nat.simps [simp del]

definition str_int :: "int \<Rightarrow> string" where
  "str_int i = (if i < 0 then ''-'' @ str_nat (nat (- i)) else str_nat (nat i))"

text \<open>
  \<^verbatim>\<open>OrderedDict(tuples)\<close>: the pairs are inserted from left to right, a repeated key
  keeps its first position and takes its last value.
\<close>

definition ordered_dict :: "('k \<times> 'v) list \<Rightarrow> ('k \<times> 'v) list" where
  "ordered_dict tuples = foldl (\<lambda>d (k, v). AList.update k v d) [] tuples"

subsection \<open>The static configuration tree\<close>

definition DOCKER_IMAGE_PATH_BASE :: string where
  "DOCKER_IMAGE_PATH_BASE = ''308535385114.dkr.ecr.us-east-1.amazonaws.com/caffe2/''"

definition DOCKER_IMAGE_VERSION :: int where
  "DOCKER_IMAGE_VERSION = 248"

definition CONFIG_HIERARCHY :: "(Ver \<times> (Ver \<times> string list) list) list" where
  "CONFIG_HIERARCHY = [
     (Ver ''ubuntu'' (Some ''14.04''), [
        (Ver ''gcc'' (Some ''4.8''), [''py2'']),
        (Ver ''gcc'' (Some ''4.9''), [''py2''])
     ]),
     (Ver ''ubuntu'' (Some ''16.04''), [
        (Ver ''cuda'' (Some ''8.0''), [''py2'']),
        (Ver ''cuda'' (Some ''9.0''), [''py2'', ''cmake'']),
        (Ver ''cuda'' (Some ''9.1''), [''py2'']),
        (Ver ''mkl'' None, [''py2'']),
        (Ver ''gcc'' (Some ''5''), [''onnx_py2'']),
        (Ver ''clang'' (Some ''3.8''), [''py2'']),
        (Ver ''clang'' (Some ''3.9''), [''py2'']),
        (Ver ''clang'' (Some ''7''), [''py2'']),
        (Ver ''android'' None, [''py2''])
     ]),
     (Ver ''centos'' (Some ''7''), [
        (Ver ''cuda'' (Some ''9.0''), [''py2''])
     ]),
     (Ver ''macos'' (Some ''10.13''), [
        (Ver ''ios'' None, [''py2'']),
        (Ver ''system'' None, [''py2''])
     ])
   ]"

subsection \<open>Configuration records\<close>

record Conf =
  language :: string
  distro :: Ver
  compiler :: Ver
  phase :: string

definition get_platform :: "Conf \<Rightarrow> string" where
  "get_platform c = (if name (distro c) = ''macos'' then ''macos'' else ''linux'')"

definition is_build_only :: "Conf \<Rightarrow> bool" where
  "is_build_only c =
     (str (compiler c) \<in> set [''gcc4.9'', ''clang3.8'', ''clang3.9'', ''clang7'', ''android'']
      \<or> get_platform c = ''macos'')"

definition get_cudnn_insertion :: "Conf \<Rightarrow> string list" where
  "get_cudnn_insertion c =
     (let omit = (language c = ''onnx_py2''
                  \<or> name (compiler c) \<in> set [''android'', ''mkl'', ''clang'']
                  \<or> str (distro c) \<in> set [''ubuntu14.04'', ''macos10.13''])
      in if omit then [] else [''cudnn7''])"

definition get_build_name_middle_parts :: "Conf \<Rightarrow> string list" where
  "get_build_name_middle_parts c =
     [str (compiler c)] @ get_cudnn_insertion c @ [str (distro c)]"

definition get_build_name_root_parts :: "Conf \<Rightarrow> string list" where
  "get_build_name_root_parts c =
     [''caffe2'', language c] @ get_build_name_middle_parts c"

definition construct_phase_name :: "Conf \<Rightarrow> string \<Rightarrow> string" where
  "construct_phase_name c ph =
     (let root_parts = get_build_name_root_parts c
      in str_replace CHR ''.'' CHR ''_'' (join ''_'' (root_parts @ [ph])))"

definition get_name :: "Conf \<Rightarrow> string" where
  "get_name c = construct_phase_name c (phase c)"

definition gen_docker_image :: "Conf \<Rightarrow> string" where
  "gen_docker_image c =
     (let lang_substitutions = [(''onnx_py2'', ''py2''), (''cmake'', ''py2'')];
          lang = override (language c) lang_substitutions;
          parts = [lang] @ get_build_name_middle_parts c
      in quote (DOCKER_IMAGE_PATH_BASE @ join ''-'' parts @ '':''
                @ str_int DOCKER_IMAGE_VERSION))"

text \<open>
  The value of \<^verbatim>\<open>gen_yaml_tree\<close> is an ordered dictionary whose values are either a
  string or the environment dictionary. \<open>gen_env_tuples\<close> is the list \<^verbatim>\<open>tuples\<close> that
  \<^verbatim>\<open>gen_yaml_tree\<close> builds by appending, before it turns it into the environment
  dictionary.
\<close>

datatype yaml = YStr string | YDict "(string \<times> string) list"

definition gen_env_tuples :: "Conf \<Rightarrow> (string \<times> string) list" where
  "gen_env_tuples c =
     (let lang_substitutions = [(''onnx_py2'', ''onnx-py2'')];
          lang = override (language c) lang_substitutions;
          parts = [''caffe2'', lang] @ get_build_name_middle_parts c @ [phase c];
          build_env = join ''-'' parts;
          build_env = (if \<not> name (distro c) = ''macos'' then quote build_env else build_env)
      in [(''BUILD_ENVIRONMENT'', build_env)]
         @ (if name (compiler c) = ''ios'' then [(''BUILD_IOS'', quote ''1'')] else [])
         @ (if phase c = ''test''
            then (let use_cuda_docker = (name (compiler c) = ''cuda'')
                  in if use_cuda_docker then [(''USE_CUDA_DOCKER_RUNTIME'', quote ''1'')]
                     else [])
            else [])
         @ (if \<not> name (distro c) = ''macos'' then [(''DOCKER_IMAGE'', gen_docker_image c)]
            else [])
         @ (if is_build_only c
            then (if \<not> name (distro c) = ''macos'' then [(''BUILD_ONLY'', quote ''1'')]
                  else [])
            else [])
         @ (if name (distro c) = ''macos''
            then [(''PYTHON_INSTALLATION'', quote ''system''),
                  (''PYTHON_VERSION'', quote ''2'')]
            else []))"

definition gen_yaml_tree :: "Conf \<Rightarrow> (string \<times> yaml) list" where
  "gen_yaml_tree c =
     (let env_dict = ordered_dict (gen_env_tuples c);
          d = ordered_dict [(''environment'', YDict env_dict)];
          d = (if phase c = ''test''
               then (let is_large = (name (compiler c) \<noteq> ''cuda'');
                         resource_class = (if is_large then ''large'' else ''gpu.medium'')
                     in AList.update ''resource_class'' (YStr resource_class) d)
               else d)
      in AList.update ''<<''
           (YStr (''*'' @ join ''_'' [''caffe2'', get_platform c, phase c, ''defaults''])) d)"

subsection \<open>Expansion, job dictionary and workflow list\<close>

definition gen_build_list :: "Conf list" where
  "gen_build_list =
     concat (map (\<lambda>(distro, d1).
       concat (map (\<lambda>(compiler_name, build_languages).
         concat (map (\<lambda>language.
           concat (map (\<lambda>phase.
             (let c = \<lparr>language = language, distro = distro,
                       compiler = compiler_name, phase = phase\<rparr>
              in if phase = ''build'' \<or> \<not> is_build_only c then [c] else []))
           PHASES))
         build_languages))
       d1))
     CONFIG_HIERARCHY)"

text \<open>
  \<^verbatim>\<open>add_caffe2_builds\<close> mutates the dictionary it is given; the model returns the
  updated dictionary.
\<close>

definition add_caffe2_builds :: "(string \<times> (string \<times> yaml) list) list
    \<Rightarrow> (string \<times> (string \<times> yaml) list) list" where
  "add_caffe2_builds jobs_dict =
     (let configs = gen_build_list
      in foldl (\<lambda>d conf_options.
                  AList.update (get_name conf_options) (gen_yaml_tree conf_options) d)
           jobs_dict configs)"

text \<open>
  A workflow entry is a bare job name or a dictionary from a job name to a dictionary
  with the key \<^verbatim>\<open>requires\<close>. \<open>filtered_configs\<close> is the local variable of that name in
  \<^verbatim>\<open>get_caffe2_workflows\<close>, and \<open>workflow_entry\<close> is the body of its loop, the
  entry appended for one record.
\<close>

datatype workflow_item =
    Item_name string
  | Item_dict "(string \<times> (string \<times> string list) list) list"

definition filtered_configs :: "Conf list" where
  "filtered_configs =
     (let configs = gen_build_list
      in filter (\<lambda>x. \<not> (str (distro x) = ''ubuntu14.04'' \<and> str (compiler x) = ''gcc4.9''))
           configs)"

definition workflow_entry :: "Conf \<Rightarrow> workflow_item" where
  "workflow_entry conf_options =
     (if phase conf_options = ''test''
      then Item_dict [(get_name conf_options,
             [(''requires'', [construct_phase_name conf_options ''build''])])]
      else Item_name (get_name conf_options))"

definition get_caffe2_workflows :: "workflow_item list" where
  "get_caffe2_workflows = map workflow_entry filtered_configs"

text \<open>
  The job names a workflow entry stands for (the bare name, or the keys of the
  dictionary), and the job names it requires.
\<close>

fun entry_job_names :: "workflow_item \<Rightarrow> string list" where
  "entry_job_names (Item_name n) = [n]"
| "entry_job_names (Item_dict kvs) = map fst kvs"

fun entry_requires :: "workflow_item \<Rightarrow> string list" where
  "entry_requires (Item_name n) = []"
| "entry_requires (Item_dict kvs) = concat (map (\<lambda>(k, v). concat (map snd v)) kvs)"

section \<open>Properties\<close>

subsection \<open>Auxiliary facts about the expansion\<close>

lemma gen_build_list_distinct: "distinct gen_build_list"
  by code_simp

lemma gen_build_list_names_distinct: "distinct (map get_name gen_build_list)"
  by code_simp

lemma gen_build_list_unfold:
  "c \<in> set gen_build_list \<longleftrightarrow>
      (\<exists>x\<in>set CONFIG_HIERARCHY. \<exists>y\<in>set (snd x). \<exists>l'\<in>set (snd y). \<exists>p'\<in>set PHASES.
          (p' = ''build'' \<or> \<not> is_build_only \<lparr>language = l', distro = fst x,
                       compiler = fst y, phase = p'\<rparr>)
          \<and> c = \<lparr>language = l', distro = fst x, compiler = fst y, phase = p'\<rparr>)"
  unfolding gen_build_list_def
  by (simp add: Let_def case_prod_beta if_distrib [of set] cong: if_cong) blast

lemma gen_build_list_mem_fields:
  "\<lparr>language = l, distro = d, compiler = cm, phase = p\<rparr> \<in> set gen_build_list \<longleftrightarrow>
     (\<exists>d1 ls. (d, d1) \<in> set CONFIG_HIERARCHY \<and> (cm, ls) \<in> set d1 \<and> l \<in> set ls)
     \<and> p \<in> set PHASES
     \<and> (p = ''build''
        \<or> \<not> is_build_only \<lparr>language = l, distro = d, compiler = cm, phase = p\<rparr>)"
  (is "?L \<longleftrightarrow> ?R")
proof
  assume ?L
  then obtain x y where x: "x \<in> set CONFIG_HIERARCHY" and y: "y \<in> set (snd x)"
    and l: "l \<in> set (snd y)" and p: "p \<in> set PHASES"
    and keep: "p = ''build''
        \<or> \<not> is_build_only \<lparr>language = l, distro = d, compiler = cm, phase = p\<rparr>"
    and dx: "d = fst x" and cy: "cm = fst y"
    unfolding gen_build_list_unfold by auto
  from x dx have "(d, snd x) \<in> set CONFIG_HIERARCHY" by simp
  moreover from y cy have "(cm, snd y) \<in> set (snd x)" by simp
  ultimately show ?R using l p keep by blast
next
  assume ?R
  then obtain d1 ls where d1: "(d, d1) \<in> set CONFIG_HIERARCHY" and ls: "(cm, ls) \<in> set d1"
    and l: "l \<in> set ls" and p: "p \<in> set PHASES"
    and keep: "p = ''build''
        \<or> \<not> is_build_only \<lparr>language = l, distro = d, compiler = cm, phase = p\<rparr>"
    by blast
  from ls have ls': "(cm, ls) \<in> set (snd (d, d1))" by simp
  from l have l': "l \<in> set (snd (cm, ls))" by simp
  from keep have keep': "p = ''build'' \<or> \<not> is_build_only
      \<lparr>language = l, distro = fst (d, d1), compiler = fst (cm, ls), phase = p\<rparr>"
    by simp
  have eq: "\<lparr>language = l, distro = d, compiler = cm, phase = p\<rparr>
      = \<lparr>language = l, distro = fst (d, d1), compiler = fst (cm, ls), phase = p\<rparr>"
    by simp
  show ?L
    unfolding gen_build_list_unfold
    using d1 ls' l' p keep' eq by blast
qed

lemma gen_build_list_mem:
  "c \<in> set gen_build_list \<longleftrightarrow>
     (\<exists>d1 ls. (distro c, d1) \<in> set CONFIG_HIERARCHY \<and> (compiler c, ls) \<in> set d1
        \<and> language c \<in> set ls)
     \<and> phase c \<in> set PHASES
     \<and> (phase c = ''build'' \<or> \<not> is_build_only c)"
  by (cases c) (simp add: gen_build_list_mem_fields)

lemma count_list_distinct:
  "distinct xs \<Longrightarrow> count_list xs x = (if x \<in> set xs then 1 else 0)"
  by (induction xs) auto

lemma is_build_only_iff:
  "is_build_only c \<longleftrightarrow>
     str (compiler c) \<in> {''gcc4.9'', ''clang3.8'', ''clang3.9'', ''clang7'', ''android''}
     \<or> name (distro c) = ''macos''"
  by (simp add: is_build_only_def get_platform_def)

subsection \<open>Uniqueness of job names\<close>

text \<open>
  Claim C1. The job names of the records produced by \<^const>\<open>gen_build_list\<close> are pairwise
  distinct: the list of names has no repetition, and two different records of the
  expansion never share a name.
\<close>

theorem job_names_pairwise_distinct:
  "distinct (map get_name gen_build_list)
   \<and> (\<forall>c\<in>set gen_build_list. \<forall>c'\<in>set gen_build_list.
        c \<noteq> c' \<longrightarrow> get_name c \<noteq> get_name c')"
proof (intro conjI ballI impI)
  show "distinct (map get_name gen_build_list)"
    by (rule gen_build_list_names_distinct)
next
  fix c c'
  assume mem: "c \<in> set gen_build_list" "c' \<in> set gen_build_list" and ne: "c \<noteq> c'"
  have "inj_on get_name (set gen_build_list)"
    using gen_build_list_names_distinct by (simp only: distinct_map)
  from inj_onD [OF this _ mem] ne show "get_name c \<noteq> get_name c'"
    by (rule_tac notI) simp
qed

text \<open>The build and the test record of one configuration, as an instance.\<close>

theorem job_names_pairwise_distinct_witness:
  "\<lparr>language = ''py2'', distro = Ver ''ubuntu'' (Some ''14.04''),
     compiler = Ver ''gcc'' (Some ''4.8''), phase = ''build''\<rparr> \<in> set gen_build_list
   \<and> \<lparr>language = ''py2'', distro = Ver ''ubuntu'' (Some ''14.04''),
     compiler = Ver ''gcc'' (Some ''4.8''), phase = ''test''\<rparr> \<in> set gen_build_list
   \<and> get_name \<lparr>language = ''py2'', distro = Ver ''ubuntu'' (Some ''14.04''),
     compiler = Ver ''gcc'' (Some ''4.8''), phase = ''build''\<rparr>
     \<noteq> get_name \<lparr>language = ''py2'', distro = Ver ''ubuntu'' (Some ''14.04''),
     compiler = Ver ''gcc'' (Some ''4.8''), phase = ''test''\<rparr>"
proof -
  let ?b = "\<lparr>language = ''py2'', distro = Ver ''ubuntu'' (Some ''14.04''),
     compiler = Ver ''gcc'' (Some ''4.8''), phase = ''build''\<rparr>"
  let ?t = "\<lparr>language = ''py2'', distro = Ver ''ubuntu'' (Some ''14.04''),
     compiler = Ver ''gcc'' (Some ''4.8''), phase = ''test''\<rparr>"
  have b: "?b \<in> set gen_build_list" by code_simp
  have t: "?t \<in> set gen_build_list" by code_simp
  have ne: "?b \<noteq> ?t" by simp
  from job_names_pairwise_distinct
  have "\<forall>c\<in>set gen_build_list. \<forall>c'\<in>set gen_build_list.
        c \<noteq> c' \<longrightarrow> get_name c \<noteq> get_name c'"
    by (rule conjunct2)
  from this [rule_format, OF b t ne] have n: "get_name ?b \<noteq> get_name ?t" .
  from b t n show ?thesis by (intro conjI)
qed

subsection \<open>The expansion and the build-only classification\<close>

text \<open>
  Claim C2. A record occurs in the expansion exactly once when its (distribution,
  compiler, language) triple is in the static tree, its phase is in the phase list and
  it is not a build-only record outside the build phase; otherwise it does not occur.
  A record is build-only exactly when the printed compiler is one of gcc4.9, clang3.8,
  clang3.9, clang7, android, or its platform is macos, which is the case exactly when
  the distribution is named macos.
\<close>

theorem gen_build_list_expansion:
  "count_list gen_build_list c =
     (if (\<exists>d1 ls. (distro c, d1) \<in> set CONFIG_HIERARCHY \<and> (compiler c, ls) \<in> set d1
            \<and> language c \<in> set ls)
         \<and> phase c \<in> set PHASES
         \<and> (phase c = ''build'' \<or> \<not> is_build_only c)
      then 1 else 0)
   \<and> (is_build_only c \<longleftrightarrow>
        str (compiler c) \<in> {''gcc4.9'', ''clang3.8'', ''clang3.9'', ''clang7'', ''android''}
        \<or> get_platform c = ''macos'')
   \<and> (get_platform c = ''macos'' \<longleftrightarrow> name (distro c) = ''macos'')"
proof (intro conjI)
  show "count_list gen_build_list c =
     (if (\<exists>d1 ls. (distro c, d1) \<in> set CONFIG_HIERARCHY \<and> (compiler c, ls) \<in> set d1
            \<and> language c \<in> set ls)
         \<and> phase c \<in> set PHASES
         \<and> (phase c = ''build'' \<or> \<not> is_build_only c)
      then 1 else 0)"
    unfolding count_list_distinct [OF gen_build_list_distinct] gen_build_list_mem ..
  show "is_build_only c \<longleftrightarrow>
        str (compiler c) \<in> {''gcc4.9'', ''clang3.8'', ''clang3.9'', ''clang7'', ''android''}
        \<or> get_platform c = ''macos''"
    by (simp add: is_build_only_def)
  show "get_platform c = ''macos'' \<longleftrightarrow> name (distro c) = ''macos''"
    by (simp add: get_platform_def)
qed

text \<open>
  The build-only compiler gcc4.9 on ubuntu14.04 has its build record and no test record,
  while gcc4.8 has its test record.
\<close>

theorem gen_build_list_expansion_witness:
  "count_list gen_build_list
     \<lparr>language = ''py2'', distro = Ver ''ubuntu'' (Some ''14.04''),
      compiler = Ver ''gcc'' (Some ''4.9''), phase = ''build''\<rparr> = 1
   \<and> count_list gen_build_list
     \<lparr>language = ''py2'', distro = Ver ''ubuntu'' (Some ''14.04''),
      compiler = Ver ''gcc'' (Some ''4.9''), phase = ''test''\<rparr> = 0
   \<and> is_build_only
     \<lparr>language = ''py2'', distro = Ver ''ubuntu'' (Some ''14.04''),
      compiler = Ver ''gcc'' (Some ''4.9''), phase = ''test''\<rparr>
   \<and> count_list gen_build_list
     \<lparr>language = ''py2'', distro = Ver ''ubuntu'' (Some ''14.04''),
      compiler = Ver ''gcc'' (Some ''4.8''), phase = ''test''\<rparr> = 1"
proof -
  let ?d = "Ver ''ubuntu'' (Some ''14.04'')"
  have tree49: "\<exists>d1 ls. (?d, d1) \<in> set CONFIG_HIERARCHY
      \<and> (Ver ''gcc'' (Some ''4.9''), ls) \<in> set d1 \<and> ''py2'' \<in> set ls"
    by (rule exI [of _ "[(Ver ''gcc'' (Some ''4.8''), [''py2'']),
                         (Ver ''gcc'' (Some ''4.9''), [''py2''])]"],
        rule exI [of _ "[''py2'']"]) (simp add: CONFIG_HIERARCHY_def)
  have tree48: "\<exists>d1 ls. (?d, d1) \<in> set CONFIG_HIERARCHY
      \<and> (Ver ''gcc'' (Some ''4.8''), ls) \<in> set d1 \<and> ''py2'' \<in> set ls"
    by (rule exI [of _ "[(Ver ''gcc'' (Some ''4.8''), [''py2'']),
                         (Ver ''gcc'' (Some ''4.9''), [''py2''])]"],
        rule exI [of _ "[''py2'']"]) (simp add: CONFIG_HIERARCHY_def)
  have bo49: "is_build_only \<lparr>language = ''py2'', distro = ?d,
      compiler = Ver ''gcc'' (Some ''4.9''), phase = ''test''\<rparr>"
    by (simp add: is_build_only_def)
  have bo48: "\<not> is_build_only \<lparr>language = ''py2'', distro = ?d,
      compiler = Ver ''gcc'' (Some ''4.8''), phase = ''test''\<rparr>"
    by (simp add: is_build_only_def get_platform_def)
  show ?thesis
    using gen_build_list_expansion [of "\<lparr>language = ''py2'', distro = ?d,
        compiler = Ver ''gcc'' (Some ''4.9''), phase = ''build''\<rparr>"]
      gen_build_list_expansion [of "\<lparr>language = ''py2'', distro = ?d,
        compiler = Ver ''gcc'' (Some ''4.9''), phase = ''test''\<rparr>"]
      gen_build_list_expansion [of "\<lparr>language = ''py2'', distro = ?d,
        compiler = Ver ''gcc'' (Some ''4.8''), phase = ''test''\<rparr>"]
      tree49 tree48 bo49 bo48
    by (simp add: PHASES_def)
qed

subsection \<open>Job names and the cudnn tag\<close>

lemma str_replace_append:
  "str_replace a b (xs @ ys) = str_replace a b xs @ str_replace a b ys"
  by (simp add: str_replace_def)

lemma str_replace_join:
  "str_replace a b (join sep xs) = join (str_replace a b sep) (map (str_replace a b) xs)"
  by (induction sep xs rule: join.induct) (simp_all add: str_replace_append, simp add: str_replace_def)

lemma str_replace_no_old: "a \<noteq> b \<Longrightarrow> a \<notin> set (str_replace a b s)"
  by (auto simp: str_replace_def)

lemma str_int_248: "str_int 248 = ''248''"
  by (simp add: str_int_def str_nat.simps)

text \<open>
  Claim C5. The job name is the join, with the delimiter \<^verbatim>\<open>_\<close>, of the project prefix
  caffe2, the language, the printed compiler, the cudnn tag when the insertion rule gives
  one, the printed distribution and the phase, in that order, with every dot replaced by
  an underscore. The replacement applies to each component alike, and no dot is left in
  the name.
\<close>

theorem get_name_parts:
  "get_name c =
     str_replace CHR ''.'' CHR ''_''
       (join ''_'' ([''caffe2'', language c, str (compiler c)] @ get_cudnn_insertion c
                    @ [str (distro c), phase c]))
   \<and> get_name c =
     join ''_'' (map (str_replace CHR ''.'' CHR ''_'')
       ([''caffe2'', language c, str (compiler c)] @ get_cudnn_insertion c
         @ [str (distro c), phase c]))
   \<and> CHR ''.'' \<notin> set (get_name c)"
proof -
  have 1: "get_name c =
     str_replace CHR ''.'' CHR ''_''
       (join ''_'' ([''caffe2'', language c, str (compiler c)] @ get_cudnn_insertion c
                    @ [str (distro c), phase c]))"
    by (simp add: get_name_def construct_phase_name_def get_build_name_root_parts_def
        get_build_name_middle_parts_def)
  have 2: "str_replace CHR ''.'' CHR ''_'' ''_'' = ''_''"
    by (simp add: str_replace_def)
  have 3: "get_name c =
     join ''_'' (map (str_replace CHR ''.'' CHR ''_'')
       ([''caffe2'', language c, str (compiler c)] @ get_cudnn_insertion c
         @ [str (distro c), phase c]))"
    unfolding 1 str_replace_join 2 ..
  have 4: "CHR ''.'' \<notin> set (get_name c)"
    by (subst 1, rule str_replace_no_old) simp
  from 1 3 4 show ?thesis by (intro conjI)
qed

text \<open>
  Claim C6. The cudnn tag is omitted exactly when the language is onnx_py2, or the
  compiler name is android, mkl or clang, or the printed distribution is ubuntu14.04 or
  macos10.13; otherwise the tag cudnn7 stands between the compiler and the distribution
  in the middle parts. The job name and the docker image both take the tag from these
  middle parts, hence from the one predicate.
\<close>

theorem cudnn_insertion_rule:
  "get_cudnn_insertion c =
     (if language c = ''onnx_py2''
         \<or> name (compiler c) \<in> {''android'', ''mkl'', ''clang''}
         \<or> str (distro c) \<in> {''ubuntu14.04'', ''macos10.13''}
      then [] else [''cudnn7''])
   \<and> get_build_name_middle_parts c =
        [str (compiler c)] @ get_cudnn_insertion c @ [str (distro c)]
   \<and> get_name c =
        str_replace CHR ''.'' CHR ''_''
          (join ''_'' ([''caffe2'', language c] @ get_build_name_middle_parts c @ [phase c]))
   \<and> gen_docker_image c =
        quote (DOCKER_IMAGE_PATH_BASE
               @ join ''-'' ([override (language c) [(''onnx_py2'', ''py2''), (''cmake'', ''py2'')]]
                             @ get_build_name_middle_parts c)
               @ '':248'')"
  by (simp add: get_cudnn_insertion_def get_build_name_middle_parts_def get_name_def
      construct_phase_name_def get_build_name_root_parts_def gen_docker_image_def
      DOCKER_IMAGE_VERSION_def str_int_248)

subsection \<open>The job definition of a record\<close>

lemma update_fresh: "k \<notin> fst ` set al \<Longrightarrow> AList.update k v al = al @ [(k, v)]"
  by (induction al) auto

lemma foldl_update_distinct:
  "distinct (map fst (acc @ xs)) \<Longrightarrow>
     foldl (\<lambda>d (k, v). AList.update k v d) acc xs = acc @ xs"
proof (induction xs arbitrary: acc)
  case Nil
  then show ?case by simp
next
  case (Cons x xs)
  obtain k v where x: "x = (k, v)" by (cases x)
  from Cons.prems x have fresh: "k \<notin> fst ` set acc" by auto
  from Cons.prems x have "distinct (map fst ((acc @ [(k, v)]) @ xs))" by simp
  from Cons.IH [OF this] show ?case by (simp add: x update_fresh [OF fresh])
qed

lemma ordered_dict_distinct: "distinct (map fst xs) \<Longrightarrow> ordered_dict xs = xs"
  unfolding ordered_dict_def using foldl_update_distinct [of "[]" xs] by simp

lemma gen_env_tuples_distinct: "distinct (map fst (gen_env_tuples c))"
  by (auto simp: gen_env_tuples_def Let_def)

lemma env_dict_eq: "ordered_dict (gen_env_tuples c) = gen_env_tuples c"
  by (rule ordered_dict_distinct [OF gen_env_tuples_distinct])

lemma gen_yaml_tree_environment:
  "map_of (gen_yaml_tree c) ''environment'' = Some (YDict (ordered_dict (gen_env_tuples c)))"
  by (simp add: gen_yaml_tree_def ordered_dict_def Let_def update_conv')

lemma hd_join_Cons: "x \<noteq> [] \<Longrightarrow> hd (join sep (x # xs)) = hd x"
  by (cases xs) simp_all

text \<open>
  Claim C7. The environment dictionary of a job definition always has the key
  BUILD_ENVIRONMENT; it has BUILD_IOS exactly when the compiler is named ios,
  USE_CUDA_DOCKER_RUNTIME exactly when the phase is test and the compiler is named cuda,
  DOCKER_IMAGE exactly when the distribution is not macos, BUILD_ONLY exactly when the
  record is build-only and the distribution is not macos, and PYTHON_INSTALLATION and
  PYTHON_VERSION, with the quoted values system and 2, exactly when the distribution is
  macos. It has no other key.
\<close>

theorem environment_block:
  "map_of (gen_yaml_tree c) ''environment'' = Some (YDict (ordered_dict (gen_env_tuples c)))
   \<and> map_of (ordered_dict (gen_env_tuples c)) ''BUILD_ENVIRONMENT'' =
       Some (if name (distro c) = ''macos''
             then join ''-'' ([''caffe2'', override (language c) [(''onnx_py2'', ''onnx-py2'')]]
                              @ get_build_name_middle_parts c @ [phase c])
             else quote (join ''-''
                     ([''caffe2'', override (language c) [(''onnx_py2'', ''onnx-py2'')]]
                       @ get_build_name_middle_parts c @ [phase c])))
   \<and> map_of (ordered_dict (gen_env_tuples c)) ''BUILD_IOS'' =
       (if name (compiler c) = ''ios'' then Some (quote ''1'') else None)
   \<and> map_of (ordered_dict (gen_env_tuples c)) ''USE_CUDA_DOCKER_RUNTIME'' =
       (if phase c = ''test'' \<and> name (compiler c) = ''cuda'' then Some (quote ''1'') else None)
   \<and> map_of (ordered_dict (gen_env_tuples c)) ''DOCKER_IMAGE'' =
       (if name (distro c) \<noteq> ''macos'' then Some (gen_docker_image c) else None)
   \<and> map_of (ordered_dict (gen_env_tuples c)) ''BUILD_ONLY'' =
       (if is_build_only c \<and> name (distro c) \<noteq> ''macos'' then Some (quote ''1'') else None)
   \<and> map_of (ordered_dict (gen_env_tuples c)) ''PYTHON_INSTALLATION'' =
       (if name (distro c) = ''macos'' then Some (quote ''system'') else None)
   \<and> map_of (ordered_dict (gen_env_tuples c)) ''PYTHON_VERSION'' =
       (if name (distro c) = ''macos'' then Some (quote ''2'') else None)
   \<and> set (map fst (ordered_dict (gen_env_tuples c))) \<subseteq>
       {''BUILD_ENVIRONMENT'', ''BUILD_IOS'', ''USE_CUDA_DOCKER_RUNTIME'', ''DOCKER_IMAGE'',
        ''BUILD_ONLY'', ''PYTHON_INSTALLATION'', ''PYTHON_VERSION''}"
  unfolding env_dict_eq
  apply (intro conjI)
          apply (simp add: gen_yaml_tree_environment env_dict_eq)
         apply (simp add: gen_env_tuples_def Let_def)
        apply (simp add: gen_env_tuples_def Let_def)
       apply (simp add: gen_env_tuples_def Let_def)
      apply (simp add: gen_env_tuples_def Let_def)
     apply (simp add: gen_env_tuples_def Let_def)
    apply (simp add: gen_env_tuples_def Let_def)
   apply (simp add: gen_env_tuples_def Let_def)
  apply (auto simp: gen_env_tuples_def Let_def split: if_splits)
  done

text \<open>
  Claim C8. A job definition has the key resource_class exactly when the phase is test;
  its value is gpu.medium for the compiler named cuda and large for every other one.
\<close>

theorem resource_class_rule:
  "map_of (gen_yaml_tree c) ''resource_class'' =
     (if phase c = ''test''
      then Some (YStr (if name (compiler c) = ''cuda'' then ''gpu.medium'' else ''large''))
      else None)"
  by (simp add: gen_yaml_tree_def ordered_dict_def Let_def update_conv')

text \<open>
  Claim C9. BUILD_ENVIRONMENT is the first key of the environment dictionary. Its value
  is the build-environment string itself for a macos distribution and the quoted string
  otherwise; it starts and ends with a double quote exactly when the distribution is not
  macos.
\<close>

theorem build_environment_first:
  "map_of (gen_yaml_tree c) ''environment'' = Some (YDict (ordered_dict (gen_env_tuples c)))
   \<and> fst (hd (ordered_dict (gen_env_tuples c))) = ''BUILD_ENVIRONMENT''
   \<and> snd (hd (ordered_dict (gen_env_tuples c))) =
       (if name (distro c) = ''macos''
        then join ''-'' ([''caffe2'', override (language c) [(''onnx_py2'', ''onnx-py2'')]]
                         @ get_build_name_middle_parts c @ [phase c])
        else quote (join ''-''
                ([''caffe2'', override (language c) [(''onnx_py2'', ''onnx-py2'')]]
                  @ get_build_name_middle_parts c @ [phase c])))
   \<and> ((hd (snd (hd (ordered_dict (gen_env_tuples c)))) = CHR 0x22
        \<and> last (snd (hd (ordered_dict (gen_env_tuples c)))) = CHR 0x22)
       \<longleftrightarrow> name (distro c) \<noteq> ''macos'')"
  unfolding env_dict_eq
  apply (intro conjI)
     apply (simp add: gen_yaml_tree_environment env_dict_eq)
    apply (simp add: gen_env_tuples_def Let_def)
   apply (simp add: gen_env_tuples_def Let_def)
  apply (simp add: gen_env_tuples_def Let_def quote_def hd_join_Cons)
  done

subsection \<open>The job dictionary\<close>

lemma foldl_update_keys:
  "fst ` set (foldl (\<lambda>d c. AList.update (f c) (g c) d) jd cs) = fst ` set jd \<union> f ` set cs"
  by (induction cs arbitrary: jd) (auto simp: dom_update)

lemma foldl_update_other:
  "k \<notin> f ` set cs \<Longrightarrow>
     map_of (foldl (\<lambda>d c. AList.update (f c) (g c) d) jd cs) k = map_of jd k"
  by (induction cs arbitrary: jd) (auto simp: update_conv')

lemma foldl_update_value:
  "distinct (map f cs) \<Longrightarrow> c \<in> set cs \<Longrightarrow>
     map_of (foldl (\<lambda>d c. AList.update (f c) (g c) d) jd cs) (f c) = Some (g c)"
proof (induction cs arbitrary: jd)
  case Nil
  then show ?case by simp
next
  case (Cons x xs)
  show ?case
  proof (cases "c \<in> set xs")
    case True
    with Cons show ?thesis by simp
  next
    case False
    with Cons.prems have cx: "c = x" and fresh: "f x \<notin> f ` set xs" by auto
    show ?thesis
      by (simp add: cx foldl_update_other [OF fresh] update_conv')
  qed
qed

lemma add_caffe2_builds_keys:
  "fst ` set (add_caffe2_builds jobs_dict) =
     fst ` set jobs_dict \<union> get_name ` set gen_build_list"
  by (simp add: add_caffe2_builds_def foldl_update_keys)

lemma add_caffe2_builds_other:
  "k \<notin> get_name ` set gen_build_list \<Longrightarrow>
     map_of (add_caffe2_builds jobs_dict) k = map_of jobs_dict k"
  by (simp add: add_caffe2_builds_def foldl_update_other)

lemma add_caffe2_builds_value:
  "c \<in> set gen_build_list \<Longrightarrow>
     map_of (add_caffe2_builds jobs_dict) (get_name c) = Some (gen_yaml_tree c)"
  by (simp add: add_caffe2_builds_def foldl_update_value [OF gen_build_list_names_distinct])

text \<open>
  Claim C10. \<^const>\<open>add_caffe2_builds\<close> only adds to the dictionary it is given: a key
  that is present before the call is present after it, and a key that is not the name of
  a generated job keeps its value.
\<close>

theorem add_caffe2_builds_frame:
  "(k \<in> fst ` set jobs_dict \<longrightarrow> k \<in> fst ` set (add_caffe2_builds jobs_dict))
   \<and> (k \<notin> set (map get_name gen_build_list) \<longrightarrow>
        map_of (add_caffe2_builds jobs_dict) k = map_of jobs_dict k)"
  by (simp add: add_caffe2_builds_keys add_caffe2_builds_other)

text \<open>A dictionary that holds the key version before the call, as an instance.\<close>

theorem add_caffe2_builds_frame_witness:
  "''version'' \<in> fst ` set [(''version'', [(''number'', YStr ''2'')])]
   \<and> ''version'' \<notin> set (map get_name gen_build_list)
   \<and> ''version'' \<in> fst ` set (add_caffe2_builds [(''version'', [(''number'', YStr ''2'')])])
   \<and> map_of (add_caffe2_builds [(''version'', [(''number'', YStr ''2'')])]) ''version''
       = Some [(''number'', YStr ''2'')]"
proof -
  have a: "''version'' \<in> fst ` set [(''version'', [(''number'', YStr ''2'')])]" by simp
  have b: "''version'' \<notin> set (map get_name gen_build_list)" by code_simp
  from add_caffe2_builds_frame [of "''version''" "[(''version'', [(''number'', YStr ''2'')])]"] a b
  have "''version'' \<in> fst ` set (add_caffe2_builds [(''version'', [(''number'', YStr ''2'')])])"
    and "map_of (add_caffe2_builds [(''version'', [(''number'', YStr ''2'')])]) ''version''
       = Some [(''number'', YStr ''2'')]"
    by simp_all
  with a b show ?thesis by (intro conjI)
qed

subsection \<open>The workflow list\<close>

lemma construct_phase_name_build:
  "construct_phase_name c ''build'' = get_name (c\<lparr>phase := ''build''\<rparr>)"
  by (simp add: get_name_def construct_phase_name_def get_build_name_root_parts_def
      get_build_name_middle_parts_def get_cudnn_insertion_def)

lemma build_record_generated:
  assumes "c \<in> set gen_build_list"
  shows "c\<lparr>phase := ''build''\<rparr> \<in> set gen_build_list"
  using assms unfolding gen_build_list_mem by (simp add: PHASES_def)

lemma filtered_configs_subset: "c \<in> set filtered_configs \<Longrightarrow> c \<in> set gen_build_list"
  by (simp add: filtered_configs_def)

text \<open>
  Claim C3. The workflow list has one entry for each record that passes the filter, in
  the same order. The entry of a record in the test phase is a dictionary from the
  record's job name to a dictionary whose requires list holds exactly the job name of
  the build phase of the same language, compiler and distribution; that build record is
  in the expansion, and its name is a key of the dictionary that
  \<^const>\<open>add_caffe2_builds\<close> returns, bound to the job definition of the build record.
\<close>

theorem workflow_test_requires:
  "length get_caffe2_workflows = length filtered_configs
   \<and> (\<forall>i < length filtered_configs.
        phase (filtered_configs ! i) = ''test'' \<longrightarrow>
          get_caffe2_workflows ! i =
            Item_dict [(get_name (filtered_configs ! i),
               [(''requires'', [get_name ((filtered_configs ! i)\<lparr>phase := ''build''\<rparr>)])])]
          \<and> (filtered_configs ! i)\<lparr>phase := ''build''\<rparr> \<in> set gen_build_list
          \<and> get_name ((filtered_configs ! i)\<lparr>phase := ''build''\<rparr>)
              \<in> fst ` set (add_caffe2_builds jobs_dict)
          \<and> map_of (add_caffe2_builds jobs_dict)
                (get_name ((filtered_configs ! i)\<lparr>phase := ''build''\<rparr>))
              = Some (gen_yaml_tree ((filtered_configs ! i)\<lparr>phase := ''build''\<rparr>)))"
proof (intro conjI allI impI)
  show "length get_caffe2_workflows = length filtered_configs"
    by (simp add: get_caffe2_workflows_def)
next
  fix i
  assume i: "i < length filtered_configs" and t: "phase (filtered_configs ! i) = ''test''"
  let ?c = "filtered_configs ! i"
  let ?b = "?c\<lparr>phase := ''build''\<rparr>"
  from i have "?c \<in> set gen_build_list"
    by (intro filtered_configs_subset nth_mem)
  then have b: "?b \<in> set gen_build_list" by (rule build_record_generated)
  show "get_caffe2_workflows ! i =
      Item_dict [(get_name ?c, [(''requires'', [get_name ?b])])]"
    using i t by (simp add: get_caffe2_workflows_def workflow_entry_def construct_phase_name_build)
  show "?b \<in> set gen_build_list" by (rule b)
  show "get_name ?b \<in> fst ` set (add_caffe2_builds jobs_dict)"
    using b by (simp add: add_caffe2_builds_keys)
  show "map_of (add_caffe2_builds jobs_dict) (get_name ?b) = Some (gen_yaml_tree ?b)"
    using b by (rule add_caffe2_builds_value)
qed

text \<open>The second entry of the workflow list, the test job of gcc4.8 on ubuntu14.04.\<close>

theorem workflow_test_requires_witness:
  "(1::nat) < length filtered_configs
   \<and> phase (filtered_configs ! 1) = ''test''
   \<and> get_caffe2_workflows ! 1 =
       Item_dict [(''caffe2_py2_gcc4_8_ubuntu14_04_test'',
          [(''requires'', [''caffe2_py2_gcc4_8_ubuntu14_04_build''])])]
   \<and> ''caffe2_py2_gcc4_8_ubuntu14_04_build'' \<in> fst ` set (add_caffe2_builds [])"
proof -
  have len: "(1::nat) < length filtered_configs" by code_simp
  have c: "filtered_configs ! 1 = \<lparr>language = ''py2'', distro = Ver ''ubuntu'' (Some ''14.04''),
      compiler = Ver ''gcc'' (Some ''4.8''), phase = ''test''\<rparr>"
    by code_simp
  have t: "phase (filtered_configs ! 1) = ''test''" unfolding c by simp
  have nt: "get_name (filtered_configs ! 1) = ''caffe2_py2_gcc4_8_ubuntu14_04_test''"
    unfolding c by code_simp
  have nb: "get_name ((filtered_configs ! 1)\<lparr>phase := ''build''\<rparr>)
      = ''caffe2_py2_gcc4_8_ubuntu14_04_build''"
    unfolding c by code_simp
  from workflow_test_requires [of "[]"] len t
  have e: "get_caffe2_workflows ! 1 =
            Item_dict [(get_name (filtered_configs ! 1),
               [(''requires'', [get_name ((filtered_configs ! 1)\<lparr>phase := ''build''\<rparr>)])])]"
    and k: "get_name ((filtered_configs ! 1)\<lparr>phase := ''build''\<rparr>)
              \<in> fst ` set (add_caffe2_builds [])"
    by blast+
  from e have e': "get_caffe2_workflows ! 1 =
       Item_dict [(''caffe2_py2_gcc4_8_ubuntu14_04_test'',
          [(''requires'', [''caffe2_py2_gcc4_8_ubuntu14_04_build''])])]"
    unfolding nt nb .
  from k have k': "''caffe2_py2_gcc4_8_ubuntu14_04_build'' \<in> fst ` set (add_caffe2_builds [])"
    unfolding nb .
  from len t e' k' show ?thesis by (intro conjI)
qed

text \<open>
  The combination that the workflow builder removes is not one of the desktop (macos)
  platform family. The expansion has one record more than the filtered list, the record
  that is missing is the build record of gcc4.9 on ubuntu14.04, and its platform is not
  macos; both macos records stay in the filtered list and have their workflow entries.
\<close>

theorem legacy_pair_desktop_counterexample:
  "\<lparr>language = ''py2'', distro = Ver ''ubuntu'' (Some ''14.04''),
      compiler = Ver ''gcc'' (Some ''4.9''), phase = ''build''\<rparr> \<in> set gen_build_list
   \<and> \<lparr>language = ''py2'', distro = Ver ''ubuntu'' (Some ''14.04''),
      compiler = Ver ''gcc'' (Some ''4.9''), phase = ''build''\<rparr> \<notin> set filtered_configs
   \<and> length gen_build_list = Suc (length filtered_configs)
   \<and> get_platform \<lparr>language = ''py2'', distro = Ver ''ubuntu'' (Some ''14.04''),
      compiler = Ver ''gcc'' (Some ''4.9''), phase = ''build''\<rparr> \<noteq> ''macos''
   \<and> \<lparr>language = ''py2'', distro = Ver ''macos'' (Some ''10.13''),
      compiler = Ver ''ios'' None, phase = ''build''\<rparr> \<in> set filtered_configs
   \<and> \<lparr>language = ''py2'', distro = Ver ''macos'' (Some ''10.13''),
      compiler = Ver ''system'' None, phase = ''build''\<rparr> \<in> set filtered_configs
   \<and> ''caffe2_py2_ios_macos10_13_build''
        \<in> set (concat (map entry_job_names get_caffe2_workflows))
   \<and> ''caffe2_py2_system_macos10_13_build''
        \<in> set (concat (map entry_job_names get_caffe2_workflows))"
  by code_simp

text \<open>
  Claim C4, amended. The filter of the workflow builder removes exactly one record of
  the expansion, the build record of the compiler gcc4.9 on the distribution
  ubuntu14.04, whose platform is linux, and keeps the order of the others. No workflow
  entry stands for its job name or requires it, while the name is a key of the
  dictionary that \<^const>\<open>add_caffe2_builds\<close> returns, bound to the job definition of that
  record.
\<close>

theorem legacy_pair_removed:
  "filter (\<lambda>x. str (distro x) = ''ubuntu14.04'' \<and> str (compiler x) = ''gcc4.9'') gen_build_list
     = [\<lparr>language = ''py2'', distro = Ver ''ubuntu'' (Some ''14.04''),
         compiler = Ver ''gcc'' (Some ''4.9''), phase = ''build''\<rparr>]
   \<and> get_platform \<lparr>language = ''py2'', distro = Ver ''ubuntu'' (Some ''14.04''),
         compiler = Ver ''gcc'' (Some ''4.9''), phase = ''build''\<rparr> = ''linux''
   \<and> get_name \<lparr>language = ''py2'', distro = Ver ''ubuntu'' (Some ''14.04''),
         compiler = Ver ''gcc'' (Some ''4.9''), phase = ''build''\<rparr>
       = ''caffe2_py2_gcc4_9_ubuntu14_04_build''
   \<and> filtered_configs =
       remove1 \<lparr>language = ''py2'', distro = Ver ''ubuntu'' (Some ''14.04''),
         compiler = Ver ''gcc'' (Some ''4.9''), phase = ''build''\<rparr> gen_build_list
   \<and> concat (map entry_job_names get_caffe2_workflows) = map get_name filtered_configs
   \<and> ''caffe2_py2_gcc4_9_ubuntu14_04_build''
        \<notin> set (concat (map entry_job_names get_caffe2_workflows))
   \<and> ''caffe2_py2_gcc4_9_ubuntu14_04_build''
        \<notin> set (concat (map entry_requires get_caffe2_workflows))
   \<and> ''caffe2_py2_gcc4_9_ubuntu14_04_build'' \<in> fst ` set (add_caffe2_builds jobs_dict)
   \<and> map_of (add_caffe2_builds jobs_dict) ''caffe2_py2_gcc4_9_ubuntu14_04_build''
       = Some (gen_yaml_tree \<lparr>language = ''py2'', distro = Ver ''ubuntu'' (Some ''14.04''),
         compiler = Ver ''gcc'' (Some ''4.9''), phase = ''build''\<rparr>)"
proof -
  let ?legacy = "\<lparr>language = ''py2'', distro = Ver ''ubuntu'' (Some ''14.04''),
         compiler = Ver ''gcc'' (Some ''4.9''), phase = ''build''\<rparr>"
  have 1: "filter (\<lambda>x. str (distro x) = ''ubuntu14.04'' \<and> str (compiler x) = ''gcc4.9'')
      gen_build_list = [?legacy]"
    by code_simp
  have 0: "get_platform ?legacy = ''linux''"
    by (simp add: get_platform_def)
  have 2: "get_name ?legacy = ''caffe2_py2_gcc4_9_ubuntu14_04_build''"
    by code_simp
  have 3: "filtered_configs = remove1 ?legacy gen_build_list"
    by code_simp
  have 4: "concat (map entry_job_names get_caffe2_workflows) = map get_name filtered_configs"
    by code_simp
  have 5: "''caffe2_py2_gcc4_9_ubuntu14_04_build''
        \<notin> set (concat (map entry_job_names get_caffe2_workflows))"
    by code_simp
  have 6: "''caffe2_py2_gcc4_9_ubuntu14_04_build''
        \<notin> set (concat (map entry_requires get_caffe2_workflows))"
    by code_simp
  have mem: "?legacy \<in> set gen_build_list" by code_simp
  have 7: "''caffe2_py2_gcc4_9_ubuntu14_04_build'' \<in> fst ` set (add_caffe2_builds jobs_dict)"
    using mem unfolding add_caffe2_builds_keys 2 [symmetric] by simp
  have 8: "map_of (add_caffe2_builds jobs_dict) ''caffe2_py2_gcc4_9_ubuntu14_04_build''
       = Some (gen_yaml_tree ?legacy)"
    using add_caffe2_builds_value [OF mem, of jobs_dict] unfolding 2 .
  from 1 0 2 3 4 5 6 7 8 show ?thesis by (intro conjI)
qed

end
